theory Spec2Isabelle
  imports Complex_Main "HOL-Library.Word"
begin

section \<open>Go strings and integers\<close>

text \<open>
  Go strings are modelled as \<^typ>\<open>string\<close>; an \<open>error\<close> value is modelled by its
  message (what \<open>err.Error()\<close> returns), and a nil error by \<open>None\<close>.  The helpers
  below are the functions of package \<open>strings\<close>, \<open>strconv\<close> and \<open>fmt\<close> that the
  check uses.
\<close>

type_synonym error = string

text \<open>\<open>strings.HasPrefix(s, prefix)\<close>\<close>

fun hasPrefix :: "string \<Rightarrow> string \<Rightarrow> bool" where
  "hasPrefix s [] = True"
| "hasPrefix [] (p # ps) = False"
| "hasPrefix (c # cs) (p # ps) = (c = p \<and> hasPrefix cs ps)"

text \<open>\<open>strings.Contains(s, substr)\<close>\<close>

fun contains :: "string \<Rightarrow> string \<Rightarrow> bool" where
  "contains [] sub = (sub = [])"
| "contains (c # cs) sub = (hasPrefix (c # cs) sub \<or> contains cs sub)"

text \<open>\<open>strings.ToLower\<close>, on the ASCII letters (reasons of cluster events are ASCII).\<close>

definition toLowerChar :: "char \<Rightarrow> char" where
  "toLowerChar c =
     (if (65::nat) \<le> of_char c \<and> (of_char c :: nat) \<le> 90
      then char_of ((of_char c :: nat) + 32) else c)"

definition toLower :: "string \<Rightarrow> string" where
  "toLower s = map toLowerChar s"

text \<open>\<open>strings.Join(elems, sep)\<close>\<close>

fun join :: "string list \<Rightarrow> string \<Rightarrow> string" where
  "join [] sep = []"
| "join [x] sep = x"
| "join (x # y # ys) sep = x @ sep @ join (y # ys) sep"

text \<open>Decimal rendering: \<open>strconv.Itoa\<close>, \<open>fmt.Sprint\<close> of an integer and the verb \<open>%d\<close>.\<close>

definition digitChar :: "nat \<Rightarrow> char" where
  "digitChar d = char_of (48 + d)"

fun natToDec :: "nat \<Rightarrow> string" where
  "natToDec n = (if n < 10 then [digitChar n] else natToDec (n div 10) @ [digitChar (n mod 10)])"

definition itoa :: "int \<Rightarrow> string" where
  "itoa i = (if i < 0 then CHR ''-'' # natToDec (nat (- i)) else natToDec (nat i))"

text \<open>
  The conversion \<open>int32(x)\<close> of a Go \<open>int\<close> keeps the low 32 bits; the value of an
  \<open>int32\<close> is read back with \<^const>\<open>sint\<close>.
\<close>

definition int32 :: "int \<Rightarrow> 32 word" where
  "int32 x = word_of_int x"

text \<open>Go's integer division truncates towards zero.\<close>

definition goDiv :: "int \<Rightarrow> int \<Rightarrow> int" where
  "goDiv a b = (if (a < 0) = (b < 0) then \<bar>a\<bar> div \<bar>b\<bar> else - (\<bar>a\<bar> div \<bar>b\<bar>))"


section \<open>Configuration and runner (checkConfig.go, checkRunner.go)\<close>

record toleration =
  TolKey :: string
  TolOperator :: string
  TolValue :: string
  TolEffect :: string

text \<open>
  \<open>CheckConfig\<close>.  Durations are nanosecond counts, as \<open>time.Duration\<close> is.  The map
  \<open>AdditionalEnvVars\<close> is given as the list of its entries in the order in which the
  \<open>range\<close> loop of \<open>createContainerConfig\<close> visits them.
\<close>

record checkConfig =
  CheckImageURL :: string
  CheckImageURLRollTo :: string
  CheckImagePullSecret :: string
  CheckDeploymentName :: string
  CheckServiceName :: string
  CheckContainerPort :: "32 word"
  CheckLoadBalancerPort :: "32 word"
  CheckNamespace :: string
  CheckDeploymentReplicas :: int
  CheckDeploymentTolerations :: "toleration list"
  CheckDeploymentNodeSelectors :: "string \<rightharpoonup> string"
  CheckServiceAccount :: string
  MillicoreRequest :: int
  MillicoreLimit :: int
  MemoryRequest :: int
  MemoryLimit :: int
  CheckTimeLimit :: int
  RollingUpdate :: bool
  AdditionalEnvVars :: "(string \<times> string) list"
  ShutdownGracePeriod :: int

text \<open>
  \<open>CheckRunner\<close>: the configuration and the pinned timestamp (\<open>r.now.Unix()\<close>, in
  seconds).  The cluster client is the environment of the operations below.
\<close>

record checkRunner =
  cfg :: checkConfig
  now :: int


section \<open>Cluster objects\<close>

record probe =
  InitialDelaySeconds :: "32 word"
  TimeoutSeconds :: "32 word"
  PeriodSeconds :: "32 word"
  SuccessThreshold :: "32 word"
  FailureThreshold :: "32 word"

record container =
  ContainerName :: string
  Image :: string
  ImagePullPolicy :: string
  Ports :: "32 word list"
  RequestsCPU :: int
  RequestsMemory :: int
  LimitsCPU :: int
  LimitsMemory :: int
  Env :: "(string \<times> string) list"
  LivenessProbe :: "probe option"
  ReadinessProbe :: "probe option"

record podSpec =
  Containers :: "container list"
  NodeSelector :: "(string \<rightharpoonup> string) option"
  RestartPolicy :: string
  TerminationGracePeriodSeconds :: "64 word option"
  ServiceAccountName :: string
  Tolerations :: "toleration list"
  ImagePullSecrets :: "string list"

record podTemplateSpec =
  TemplateLabels :: "string \<rightharpoonup> string"
  TemplateName :: string
  TemplateNamespace :: string
  TemplateSpec :: podSpec

record intOrString =
  IntVal :: "32 word"
  StrVal :: string

record rollingUpdateDeployment =
  MaxUnavailable :: "intOrString option"
  MaxSurge :: "intOrString option"

record deploymentStrategy =
  StrategyType :: string
  StrategyRollingUpdate :: "rollingUpdateDeployment option"

record deploymentSpec =
  Strategy :: deploymentStrategy
  MinReadySeconds :: "32 word"
  Replicas :: "32 word option"
  Selector :: "(string \<rightharpoonup> string) option"
  Template :: podTemplateSpec

record deploymentCondition =
  CondType :: string
  CondStatus :: string

record deploymentStatus =
  Conditions :: "deploymentCondition list"
  StatusReplicas :: "32 word"
  UpdatedReplicas :: "32 word"
  AvailableReplicas :: "32 word"
  ReadyReplicas :: "32 word"
  UnavailableReplicas :: "32 word"
  ObservedGeneration :: "64 word"

record deployment =
  DeploymentName :: string
  DeploymentNamespace :: string
  Spec :: deploymentSpec
  Status :: deploymentStatus

text \<open>The zero value \<open>&appsv1.Deployment{}\<close>.\<close>

definition zeroPodSpec :: podSpec where
  "zeroPodSpec = \<lparr>Containers = [], NodeSelector = None, RestartPolicy = [],
     TerminationGracePeriodSeconds = None, ServiceAccountName = [], Tolerations = [],
     ImagePullSecrets = []\<rparr>"

definition zeroStatus :: deploymentStatus where
  "zeroStatus = \<lparr>Conditions = [], StatusReplicas = 0, UpdatedReplicas = 0,
     AvailableReplicas = 0, ReadyReplicas = 0, UnavailableReplicas = 0,
     ObservedGeneration = 0\<rparr>"

definition zeroDeployment :: deployment where
  "zeroDeployment = \<lparr>DeploymentName = [], DeploymentNamespace = [],
     Spec = \<lparr>Strategy = \<lparr>StrategyType = [], StrategyRollingUpdate = None\<rparr>,
       MinReadySeconds = 0, Replicas = None, Selector = None,
       Template = \<lparr>TemplateLabels = Map.empty, TemplateName = [], TemplateNamespace = [],
         TemplateSpec = zeroPodSpec\<rparr>\<rparr>,
     Status = zeroStatus\<rparr>"


section \<open>Resource descriptors (deploymentConfig.go)\<close>

definition deploymentLabelKey :: string where
  "deploymentLabelKey = ''deployment-timestamp''"

definition deploymentLabelValueBase :: string where
  "deploymentLabelValueBase = ''unix-''"

definition deploymentMinReadySeconds :: "32 word" where
  "deploymentMinReadySeconds = 5"

definition deploymentMaxSurgeDefault :: int where
  "deploymentMaxSurgeDefault = 2"

definition deploymentMaxUnavailableDefault :: int where
  "deploymentMaxUnavailableDefault = 2"

definition deploymentImagePullPolicy :: string where
  "deploymentImagePullPolicy = ''IfNotPresent''"

definition checkProbe :: probe where
  "checkProbe = \<lparr>InitialDelaySeconds = 2, TimeoutSeconds = 2, PeriodSeconds = 15,
     SuccessThreshold = 1, FailureThreshold = 5\<rparr>"

text \<open>\<open>createContainerConfig\<close>\<close>

definition createContainerConfig :: "checkRunner \<Rightarrow> string \<Rightarrow> container" where
  "createContainerConfig r imageURL =
     \<lparr>ContainerName = ''deployment-container'',
      Image = imageURL,
      ImagePullPolicy = deploymentImagePullPolicy,
      Ports = [CheckContainerPort (cfg r)],
      RequestsCPU = MillicoreRequest (cfg r),
      RequestsMemory = MemoryRequest (cfg r),
      LimitsCPU = MillicoreLimit (cfg r),
      LimitsMemory = MemoryLimit (cfg r),
      Env = AdditionalEnvVars (cfg r),
      LivenessProbe = Some checkProbe,
      ReadinessProbe = Some checkProbe\<rparr>"

text \<open>
  The rolling-update values of \<open>createDeploymentConfig\<close>:
  \<open>math.Ceil(float64(replicas) / float64(2))\<close>, replaced by the fallback constant when
  it is below 1.  The \<open>float64\<close> arithmetic is modelled on the reals; it is exact for
  every replica count of magnitude up to \<open>2 ^ 53\<close>.
\<close>

definition maxSurge :: "int \<Rightarrow> int" where
  "maxSurge replicas =
     (let m = \<lceil>real_of_int replicas / real_of_int 2\<rceil>
      in if m < 1 then deploymentMaxSurgeDefault else m)"

definition maxUnavailable :: "int \<Rightarrow> int" where
  "maxUnavailable replicas =
     (let m = \<lceil>real_of_int replicas / real_of_int 2\<rceil>
      in if m < 1 then deploymentMaxUnavailableDefault else m)"

text \<open>
  \<open>createDeploymentConfig\<close>.  The second component is the list of lines the function
  logs at warning level (\<open>log.Warnln\<close>); its informational line is not modelled.
\<close>

definition createDeploymentConfig :: "checkRunner \<Rightarrow> string \<Rightarrow> deployment \<times> string list" where
  "createDeploymentConfig r checkImage =
     (if length checkImage = 0
      then (zeroDeployment, [''check image url for container is empty: '' @ checkImage])
      else
        let containers = [createContainerConfig r checkImage];
            nodeSelectors =
              (if CheckDeploymentNodeSelectors (cfg r) = Map.empty then None
               else Some (CheckDeploymentNodeSelectors (cfg r)));
            podSpec0 = \<lparr>Containers = containers, NodeSelector = nodeSelectors,
              RestartPolicy = ''Always'', TerminationGracePeriodSeconds = Some 1,
              ServiceAccountName = CheckServiceAccount (cfg r),
              Tolerations = CheckDeploymentTolerations (cfg r),
              ImagePullSecrets = []\<rparr>;
            podSpec1 =
              (if length (CheckImagePullSecret (cfg r)) \<noteq> 0
               then podSpec0\<lparr>ImagePullSecrets := [CheckImagePullSecret (cfg r)]\<rparr>
               else podSpec0);
            labels = [deploymentLabelKey \<mapsto> deploymentLabelValueBase @ itoa (now r),
                      ''source'' \<mapsto> ''kuberhealthy''];
            podTemplate = \<lparr>TemplateLabels = labels,
              TemplateName = CheckDeploymentName (cfg r),
              TemplateNamespace = CheckNamespace (cfg r), TemplateSpec = podSpec1\<rparr>;
            surge = maxSurge (CheckDeploymentReplicas (cfg r));
            unavailable = maxUnavailable (CheckDeploymentReplicas (cfg r));
            rollingUpdateSpec = \<lparr>
              MaxUnavailable = Some \<lparr>IntVal = int32 unavailable, StrVal = itoa unavailable\<rparr>,
              MaxSurge = Some \<lparr>IntVal = int32 surge, StrVal = itoa surge\<rparr>\<rparr>;
            deployStrategy = \<lparr>StrategyType = ''RollingUpdate'',
              StrategyRollingUpdate = Some rollingUpdateSpec\<rparr>;
            deploySpec = \<lparr>Strategy = deployStrategy,
              MinReadySeconds = deploymentMinReadySeconds,
              Replicas = Some (int32 (CheckDeploymentReplicas (cfg r))),
              Selector = Some labels, Template = podTemplate\<rparr>
        in (\<lparr>DeploymentName = CheckDeploymentName (cfg r),
             DeploymentNamespace = CheckNamespace (cfg r),
             Spec = deploySpec, Status = zeroStatus\<rparr>, []))"


section \<open>Status predicates (deploymentOperations.go)\<close>

text \<open>
  \<open>deploymentAvailable\<close>: the loop over the status conditions; each \<open>continue\<close> of
  the source moves on to the next condition.
\<close>

fun availableCondition :: "deploymentStatus \<Rightarrow> int \<Rightarrow> deploymentCondition list \<Rightarrow> bool" where
  "availableCondition st replicas [] = False"
| "availableCondition st replicas (condition # rest) =
     (if CondType condition \<noteq> ''Available'' then availableCondition st replicas rest
      else if CondStatus condition \<noteq> ''True'' then availableCondition st replicas rest
      else if StatusReplicas st \<noteq> int32 replicas then availableCondition st replicas rest
      else if AvailableReplicas st \<noteq> int32 replicas then availableCondition st replicas rest
      else if ReadyReplicas st \<noteq> int32 replicas then availableCondition st replicas rest
      else if ObservedGeneration st \<noteq> 1 then availableCondition st replicas rest
      else True)"

definition deploymentAvailable :: "deployment option \<Rightarrow> int \<Rightarrow> bool" where
  "deploymentAvailable d replicas =
     (case d of
        None \<Rightarrow> False
      | Some dep \<Rightarrow> availableCondition (Status dep) replicas (Conditions (Status dep)))"

text \<open>\<open>rolledPodsAreReady\<close>; the comparisons with 1 are signed.\<close>

definition rolledPodsAreReady :: "deployment option \<Rightarrow> int \<Rightarrow> bool" where
  "rolledPodsAreReady d replicas =
     (case d of
        None \<Rightarrow> False
      | Some dep \<Rightarrow>
          if StatusReplicas (Status dep) \<noteq> int32 replicas then False
          else if UpdatedReplicas (Status dep) \<noteq> int32 replicas then False
          else if AvailableReplicas (Status dep) \<noteq> int32 replicas then False
          else if ReadyReplicas (Status dep) \<noteq> int32 replicas then False
          else if 1 \<le> sint (UnavailableReplicas (Status dep)) then False
          else if sint (ObservedGeneration (Status dep)) \<le> 1 then False
          else True)"


section \<open>The environment: cluster calls, clock and context\<close>

text \<open>
  The cluster client, the clock, the caller's context and the HTTP endpoint are the
  environment of the operations.  Each operation takes a script of the answers the
  environment gives, in the order in which the operation asks for them, and returns
  its result together with the list of the calls it made.  A loop of the source that
  waits on the environment consumes one script entry per iteration; when the script
  is used up the operation has not returned yet, which is the value \<open>Pending\<close>.
\<close>

datatype 'a run = Pending | Returned 'a

datatype action =
    ApiCreateDeployment deployment
  | ApiGetDeployment
  | ApiUpdateDeployment deployment
  | ApiWatchDeployments
  | ApiDeleteDeployment
  | ApiListDeployments
  | ApiDeleteService
  | ApiListServices
  | ApiListPods
  | HttpGet string
  | Sleep int

text \<open>
  One iteration of a delete-and-wait loop: whether \<open>ctx.Done()\<close> is ready at the
  \<open>select\<close>, what the \<open>List\<close> call answers (an error, or the names of the items
  listed), and what the re-issued \<open>Delete\<close> call answers if it is made.
\<close>

record deletePoll =
  ctxDone :: bool
  listResult :: "error + string list"
  redeleteResult :: "error option"

record deleteEnv =
  firstDelete :: "error option"
  polls :: "deletePoll list"


section \<open>Deleting the deployment (deploymentOperations.go)\<close>

text \<open>
  The loop of \<open>deleteDeploymentAndWait\<close>.  Errors of the \<open>Delete\<close> calls are only
  logged by the source, so they do not influence the result.
\<close>

fun deploymentDeleteLoop :: "string \<Rightarrow> deletePoll list \<Rightarrow> error option run \<times> action list" where
  "deploymentDeleteLoop name [] = (Pending, [])"
| "deploymentDeleteLoop name (p # ps) =
     (if ctxDone p
      then (Returned (Some ''timed out while waiting for deployment to delete''), [])
      else
        (case listResult p of
           Inl listErr \<Rightarrow>
             (let (res, t) = deploymentDeleteLoop name ps
              in (res, Sleep 5 # ApiListDeployments # t))
         | Inr items \<Rightarrow>
             if name \<in> set items
             then (let (res, t) = deploymentDeleteLoop name ps
                   in (res, Sleep 5 # ApiListDeployments # ApiDeleteDeployment # t))
             else (Returned None, [Sleep 5, ApiListDeployments])))"

definition deleteDeploymentAndWait :: "checkRunner \<Rightarrow> deleteEnv \<Rightarrow> error option run \<times> action list" where
  "deleteDeploymentAndWait r env =
     (let (res, t) = deploymentDeleteLoop (CheckDeploymentName (cfg r)) (polls env)
      in (res, ApiDeleteDeployment # t))"


section \<open>Deleting the service (serviceOperations.go)\<close>

fun serviceDeleteLoop :: "string \<Rightarrow> deletePoll list \<Rightarrow> error option run \<times> action list" where
  "serviceDeleteLoop name [] = (Pending, [])"
| "serviceDeleteLoop name (p # ps) =
     (if ctxDone p
      then (Returned (Some ''timed out while waiting for service to delete''), [])
      else
        (case listResult p of
           Inl listErr \<Rightarrow>
             (let (res, t) = serviceDeleteLoop name ps
              in (res, Sleep 5 # ApiListServices # t))
         | Inr items \<Rightarrow>
             if name \<in> set items
             then (let (res, t) = serviceDeleteLoop name ps
                   in (res, Sleep 5 # ApiListServices # ApiDeleteService # t))
             else (Returned None, [Sleep 5, ApiListServices])))"

definition deleteServiceAndWait :: "checkRunner \<Rightarrow> deleteEnv \<Rightarrow> error option run \<times> action list" where
  "deleteServiceAndWait r env =
     (let (res, t) = serviceDeleteLoop (CheckServiceName (cfg r)) (polls env)
      in (res, ApiDeleteService # t))"


section \<open>Cleanup (checkConfig.go)\<close>

record cleanupEnv =
  serviceDelete :: deleteEnv
  deploymentDelete :: deleteEnv

definition cleanup :: "checkRunner \<Rightarrow> cleanupEnv \<Rightarrow> error option run \<times> action list" where
  "cleanup r env =
     (case deleteServiceAndWait r (serviceDelete env) of
        (Pending, ts) \<Rightarrow> (Pending, ts)
      | (Returned serviceErr, ts) \<Rightarrow>
          (let resultErr0 =
                 (case serviceErr of
                    None \<Rightarrow> []
                  | Some e \<Rightarrow> [] @ ''error cleaning up service: '' @ e)
           in case deleteDeploymentAndWait r (deploymentDelete env) of
                (Pending, td) \<Rightarrow> (Pending, ts @ td)
              | (Returned deploymentErr, td) \<Rightarrow>
                  (let resultErr1 =
                         (case deploymentErr of
                            None \<Rightarrow> resultErr0
                          | Some e \<Rightarrow>
                              (if length resultErr0 \<noteq> 0 then resultErr0 @ '' | '' else resultErr0)
                                @ ''error cleaning up deployment: '' @ e)
                   in (Returned (if length resultErr1 \<noteq> 0 then Some resultErr1 else None),
                       ts @ td))))"


section \<open>Pods and events\<close>

record waitingState =
  WaitingReason :: string
  WaitingMessage :: string

text \<open>
  A container status: \<open>Waiting\<close> and \<open>Terminated\<close> are the pointers of
  \<open>ContainerState\<close> (\<open>None\<close> for nil, \<open>Terminated\<close> carrying its reason), and
  \<open>StateRunning\<close> says whether the \<open>Running\<close> pointer is set.
\<close>

record containerStatus =
  StatusName :: string
  Ready :: bool
  Waiting :: "waitingState option"
  StateRunning :: bool
  Terminated :: "string option"

record pod =
  PodName :: string
  NodeName :: string
  Phase :: string
  PodReason :: string
  PodMessage :: string
  ContainerStatuses :: "containerStatus list"

text \<open>An event; \<open>LastTimestamp\<close> counts from the zero \<open>time.Time\<close>.\<close>

record event =
  EventReason :: string
  EventMessage :: string
  LastTimestamp :: int

text \<open>
  The answer of the \<open>Events(...).List\<close> call: a list, a not-found error (the typed
  client then hands back an empty list object), or another error.
\<close>

datatype eventListResult = EventList "event list" | EventsNotFound | EventsError error

text \<open>
  What one inspection of the pods sees: the answer of the pod \<open>List\<close> call for the
  run's label, and the answer of the event \<open>List\<close> call for each pod name.
\<close>

record podSnapshot =
  podList :: "error + pod list"
  eventsOf :: "string \<Rightarrow> eventListResult"


section \<open>Pod-error inspection (deploymentOperations.go)\<close>

definition errDeploymentCreatePod :: error where
  "errDeploymentCreatePod = ''pod in the process of creating deployment''"

definition errDeploymentUpdatePod :: error where
  "errDeploymentUpdatePod = ''pod in the process of updating deployment''"

text \<open>
  The loop of \<open>checkDeploymentPodEvent\<close> that tracks the most recent error event; the
  accumulator is \<open>(eventReason, eventMsg, recentEventTime)\<close>.
\<close>

fun recentErrorEvent :: "event list \<Rightarrow> string \<times> string \<times> int \<Rightarrow> string \<times> string \<times> int" where
  "recentErrorEvent [] acc = acc"
| "recentErrorEvent (checkerPodEvent # rest) (eventReason, eventMsg, recentEventTime) =
     (let checkerReason = toLower (EventReason checkerPodEvent)
      in if \<not> contains checkerReason ''err'' \<and> \<not> contains checkerReason ''failed''
            \<and> \<not> contains checkerReason ''backoff''
         then recentErrorEvent rest (eventReason, eventMsg, recentEventTime)
         else if LastTimestamp checkerPodEvent > recentEventTime
         then recentErrorEvent rest
                (EventReason checkerPodEvent, EventMessage checkerPodEvent,
                 LastTimestamp checkerPodEvent)
         else recentErrorEvent rest (eventReason, eventMsg, recentEventTime))"

text \<open>The inner loop over the container statuses of one pod.\<close>

fun checkContainerStatuses ::
  "(string \<Rightarrow> eventListResult) \<Rightarrow> error \<Rightarrow> pod \<Rightarrow> containerStatus list \<Rightarrow> error option" where
  "checkContainerStatuses events reason p [] = None"
| "checkContainerStatuses events reason p (containerStat # rest) =
     (case Waiting containerStat of
        None \<Rightarrow> checkContainerStatuses events reason p rest
      | Some w \<Rightarrow>
          if WaitingReason w = [] then checkContainerStatuses events reason p rest
          else if \<not> Ready containerStat \<and> WaitingReason w \<noteq> ''ContainerCreating''
          then Some (''pod state error: ''
                 @ (''pod: '' @ PodName p @ '' node: '' @ NodeName p @ '' container: ''
                    @ StatusName containerStat @ '' reason: '' @ WaitingReason w
                    @ '' msg: '' @ WaitingMessage w)
                 @ ''; stage: '' @ reason)
          else
            (case events (PodName p) of
               EventsError eventErr \<Rightarrow> Some eventErr
             | answer \<Rightarrow>
                 (let items = (case answer of EventList evs \<Rightarrow> evs | _ \<Rightarrow> []);
                      (eventReason, eventMsg, recentEventTime) =
                        recentErrorEvent items ([], [], 0)
                  in if length eventReason \<noteq> 0
                     then Some (''pod event error: ''
                            @ (''pod: '' @ PodName p @ '' node: '' @ NodeName p
                               @ '' container: '' @ StatusName containerStat
                               @ '' reason: '' @ eventReason @ '' msg: '' @ eventMsg)
                            @ ''; stage: '' @ reason)
                     else checkContainerStatuses events reason p rest)))"

text \<open>The outer loop over the pods.\<close>

fun checkPods :: "(string \<Rightarrow> eventListResult) \<Rightarrow> error \<Rightarrow> pod list \<Rightarrow> error option" where
  "checkPods events reason [] = None"
| "checkPods events reason (p # rest) =
     (case checkContainerStatuses events reason p (ContainerStatuses p) of
        Some err \<Rightarrow> Some err
      | None \<Rightarrow>
          if Phase p = ''Failed''
          then Some (''pod failed: ''
                 @ (''pod: '' @ PodName p @ '' node: '' @ NodeName p @ '' reason: ''
                    @ PodReason p @ '' msg: '' @ PodMessage p)
                 @ ''; stage: '' @ reason)
          else checkPods events reason rest)"

definition checkDeploymentPodEvent :: "podSnapshot \<Rightarrow> error \<Rightarrow> error option" where
  "checkDeploymentPodEvent snap reason =
     (case podList snap of
        Inl err \<Rightarrow> Some err
      | Inr items \<Rightarrow> checkPods (eventsOf snap) reason items)"

text \<open>
  One iteration of \<open>monitorDeploymentPodErrors\<close>: whether the monitor's context is
  done, the value of \<open>time.Until(deadline)\<close> in nanoseconds, and what an inspection
  of the pods would see.
\<close>

record monitorTick =
  tickCtxDone :: bool
  untilDeadline :: int
  snapshot :: podSnapshot

text \<open>
  \<open>monitorDeploymentPodErrors\<close>.  The result \<open>Returned (Some e)\<close> is the monitor
  sending \<open>e\<close> on the result channel and returning; \<open>Returned None\<close> is the monitor
  returning on its cancelled context without sending.  The second component lists the
  results of the inspections (\<open>checkDeploymentPodEvent\<close>) the monitor made, in order.
\<close>

fun monitorDeploymentPodErrors ::
  "checkRunner \<Rightarrow> int \<Rightarrow> error \<Rightarrow> monitorTick list \<Rightarrow> error option run \<times> error option list" where
  "monitorDeploymentPodErrors r divisor reason [] = (Pending, [])"
| "monitorDeploymentPodErrors r divisor reason (t # ts) =
     (if tickCtxDone t then (Returned None, [])
      else if divisor > 0 \<and> untilDeadline t < goDiv (CheckTimeLimit (cfg r)) divisor
      then (let podErr = checkDeploymentPodEvent (snapshot t) reason
            in case podErr of
                 Some e \<Rightarrow> (Returned (Some e), [podErr])
               | None \<Rightarrow>
                   (let (res, seen) = monitorDeploymentPodErrors r divisor reason ts
                    in (res, podErr # seen)))
      else monitorDeploymentPodErrors r divisor reason ts)"


section \<open>Decorating deployment errors\<close>

text \<open>\<open>describeContainerState\<close>\<close>

definition describeContainerState :: "containerStatus \<Rightarrow> string" where
  "describeContainerState status =
     (case Terminated status of
        Some reason \<Rightarrow> ''terminated:'' @ (if length reason = 0 then ''terminated'' else reason)
      | None \<Rightarrow>
          (case Waiting status of
             Some w \<Rightarrow>
               ''waiting:'' @ (if length (WaitingReason w) = 0 then ''waiting'' else WaitingReason w)
           | None \<Rightarrow> if StateRunning status then ''running'' else ''unknown''))"

text \<open>\<open>formatDeploymentPodSummary\<close>\<close>

definition formatDeploymentPodSummary :: "pod \<Rightarrow> string" where
  "formatDeploymentPodSummary p =
     (let nodeName = (if length (NodeName p) = 0 then ''unscheduled'' else NodeName p);
          readyCount = length (filter Ready (ContainerStatuses p));
          totalCount = length (ContainerStatuses p);
          containerStates0 =
            map (\<lambda>status. StatusName status @ ''='' @ describeContainerState status)
              (ContainerStatuses p);
          containerStates = (if length containerStates0 = 0 then [''none''] else containerStates0);
          reason = (if length (PodReason p) = 0 then ''none'' else PodReason p)
      in ''pod='' @ PodName p @ '' node='' @ nodeName @ '' phase='' @ Phase p
           @ '' reason='' @ reason @ '' ready='' @ itoa (int readyCount) @ ''/''
           @ itoa (int totalCount) @ '' containers=['' @ join containerStates '','' @ '']'')"

text \<open>\<open>deploymentPodSummary\<close>, from the answer of its pod \<open>List\<close> call.\<close>

definition deploymentPodSummary :: "error + pod list \<Rightarrow> string" where
  "deploymentPodSummary answer =
     (case answer of
        Inl err \<Rightarrow> ''failed to list deployment pods: '' @ err
      | Inr items \<Rightarrow>
          if length items = 0 then ''no deployment pods found''
          else join (map formatDeploymentPodSummary items) ''; '')"

text \<open>\<open>decorateDeploymentError\<close>\<close>

definition decorateDeploymentError :: "error + pod list \<Rightarrow> string \<Rightarrow> error option \<Rightarrow> error option" where
  "decorateDeploymentError podsAnswer stage err =
     (case err of
        None \<Rightarrow> None
      | Some e \<Rightarrow>
          Some (stage @ '' failed: '' @ e @ ''; pod status: '' @ deploymentPodSummary podsAnswer))"


section \<open>Creating and updating the deployment (deploymentOperations.go)\<close>

text \<open>
  The \<open>select\<close> of the wait loops picks whichever channel is ready.  The script of
  a wait lists the picks in order: a watch event (\<open>None\<close> when the event's object is
  not a deployment), a receive from the pod-error channel, or the caller's context
  being done.
\<close>

datatype selectEvent = WatchEvent "deployment option" | PodErrorReceived | CtxDone

text \<open>
  The environment of a wait: the answer of the \<open>Watch\<close> call, the script of the
  concurrent pod-error monitor, the picks of the \<open>select\<close>, the environment of the
  cleanup run on context expiry, and the answer of the pod \<open>List\<close> call made when an
  error is decorated.
\<close>

record waitEnv =
  watchResult :: "error option"
  monitorTicks :: "monitorTick list"
  selects :: "selectEvent list"
  cleanupOnExpiry :: cleanupEnv
  summaryPods :: "error + pod list"

record createEnv = waitEnv +
  createResult :: "error + deployment option"

record updateEnv = waitEnv +
  getResult :: "error + deployment option"
  updateResult :: "error + deployment"

text \<open>
  What the wait loop can receive from the pod-error channel: the error the monitor
  sent, if it sent one.  The monitor sends at most once and never sends nil.
\<close>

definition podErrorChan :: "error option run \<times> error option list \<Rightarrow> error option" where
  "podErrorChan monitor = (case fst monitor of Returned podErr \<Rightarrow> podErr | Pending \<Rightarrow> None)"

text \<open>The wait loop of \<open>createDeploymentAndWait\<close>; results are the Go pair (deployment, error).\<close>

fun createWaitLoop ::
  "checkRunner \<Rightarrow> error option \<Rightarrow> cleanupEnv \<Rightarrow> error + pod list \<Rightarrow> selectEvent list
     \<Rightarrow> (deployment option \<times> error option) run \<times> action list" where
  "createWaitLoop r sent cenv pods [] = (Pending, [])"
| "createWaitLoop r sent cenv pods (ev # evs) =
     (case ev of
        WatchEvent obj \<Rightarrow>
          (case obj of
             None \<Rightarrow> createWaitLoop r sent cenv pods evs
           | Some deploymentEvent \<Rightarrow>
               if deploymentAvailable (Some deploymentEvent) (CheckDeploymentReplicas (cfg r))
               then (Returned (Some deploymentEvent, None), [])
               else createWaitLoop r sent cenv pods evs)
      | PodErrorReceived \<Rightarrow>
          (case sent of
             None \<Rightarrow> createWaitLoop r sent cenv pods evs
           | Some podErr \<Rightarrow>
               (Returned (None, decorateDeploymentError pods ''deployment create'' (Some podErr)),
                [ApiListPods]))
      | CtxDone \<Rightarrow>
          (case cleanup r cenv of
             (Pending, t) \<Rightarrow> (Pending, t)
           | (Returned (Some cleanupErr), t) \<Rightarrow>
               (Returned (None, Some (''failed to clean up after deployment create: '' @ cleanupErr)), t)
           | (Returned None, t) \<Rightarrow>
               (Returned (None, decorateDeploymentError pods ''deployment create''
                  (Some ''context expired while waiting for deployment to create'')),
                t @ [ApiListPods])))"

definition createDeploymentAndWait ::
  "checkRunner \<Rightarrow> createEnv \<Rightarrow> (deployment option \<times> error option) run \<times> action list" where
  "createDeploymentAndWait r env =
     (let deploymentConfig = fst (createDeploymentConfig r (CheckImageURL (cfg r)))
      in case createResult env of
           Inl err \<Rightarrow>
             (Returned (None, Some (''failed to create deployment: '' @ err)),
              [ApiCreateDeployment deploymentConfig])
         | Inr None \<Rightarrow>
             (Returned (None, Some ''deployment creation returned nil''),
              [ApiCreateDeployment deploymentConfig])
         | Inr (Some created) \<Rightarrow>
             (let sent = podErrorChan
                    (monitorDeploymentPodErrors r 2 errDeploymentCreatePod (monitorTicks env))
              in case watchResult env of
                   Some err \<Rightarrow>
                     (Returned (None, Some (''failed to watch deployment: '' @ err)),
                      [ApiCreateDeployment deploymentConfig, ApiWatchDeployments])
                 | None \<Rightarrow>
                     (let (res, t) = createWaitLoop r sent (cleanupOnExpiry env)
                            (summaryPods env) (selects env)
                      in (res, ApiCreateDeployment deploymentConfig # ApiWatchDeployments # t))))"

text \<open>The wait loop of \<open>updateDeploymentAndWait\<close>.\<close>

fun updateWaitLoop ::
  "checkRunner \<Rightarrow> error option \<Rightarrow> cleanupEnv \<Rightarrow> error + pod list \<Rightarrow> selectEvent list
     \<Rightarrow> (deployment option \<times> error option) run \<times> action list" where
  "updateWaitLoop r sent cenv pods [] = (Pending, [])"
| "updateWaitLoop r sent cenv pods (ev # evs) =
     (case ev of
        WatchEvent obj \<Rightarrow>
          (case obj of
             None \<Rightarrow> updateWaitLoop r sent cenv pods evs
           | Some deploymentEvent \<Rightarrow>
               if rolledPodsAreReady (Some deploymentEvent) (CheckDeploymentReplicas (cfg r))
               then (Returned (Some deploymentEvent, None), [])
               else updateWaitLoop r sent cenv pods evs)
      | PodErrorReceived \<Rightarrow>
          (case sent of
             None \<Rightarrow> updateWaitLoop r sent cenv pods evs
           | Some podErr \<Rightarrow>
               (Returned (None, decorateDeploymentError pods ''deployment update'' (Some podErr)),
                [ApiListPods]))
      | CtxDone \<Rightarrow>
          (case cleanup r cenv of
             (Pending, t) \<Rightarrow> (Pending, t)
           | (Returned (Some cleanupErr), t) \<Rightarrow>
               (Returned (None, Some (''failed to clean up after deployment update: '' @ cleanupErr)), t)
           | (Returned None, t) \<Rightarrow>
               (Returned (None, decorateDeploymentError pods ''deployment update''
                  (Some ''context expired while waiting for deployment to update'')),
                t @ [ApiListPods])))"

definition updateDeploymentAndWait ::
  "checkRunner \<Rightarrow> updateEnv \<Rightarrow> (deployment option \<times> error option) run \<times> action list" where
  "updateDeploymentAndWait r env =
     (case getResult env of
        Inl err \<Rightarrow>
          (Returned (None, Some (''failed to fetch deployment for update: '' @ err)),
           [ApiGetDeployment])
      | Inr None \<Rightarrow> (Returned (None, Some ''deployment lookup returned nil''), [ApiGetDeployment])
      | Inr (Some current) \<Rightarrow>
          (let updatedConfig = fst (createDeploymentConfig r (CheckImageURLRollTo (cfg r)))
           in if length (Containers (TemplateSpec (Template (Spec updatedConfig)))) = 0
              then (Returned (None, Some ''updated deployment config did not include containers''),
                    [ApiGetDeployment])
              else
                (let current' = current\<lparr>Spec := (Spec current)\<lparr>
                       Template := Template (Spec updatedConfig),
                       Replicas := Replicas (Spec updatedConfig),
                       Strategy := Strategy (Spec updatedConfig),
                       MinReadySeconds := MinReadySeconds (Spec updatedConfig)\<rparr>\<rparr>
                 in case updateResult env of
                      Inl err \<Rightarrow>
                        (Returned (None, Some (''failed to update deployment: '' @ err)),
                         [ApiGetDeployment, ApiUpdateDeployment current'])
                    | Inr updated \<Rightarrow>
                        (let sent = podErrorChan
                               (monitorDeploymentPodErrors r 3 errDeploymentUpdatePod
                                  (monitorTicks env))
                         in case watchResult env of
                              Some err \<Rightarrow>
                                (Returned (None, Some (''failed to watch deployment update: '' @ err)),
                                 [ApiGetDeployment, ApiUpdateDeployment current',
                                  ApiWatchDeployments])
                            | None \<Rightarrow>
                                (let (res, t) = updateWaitLoop r sent (cleanupOnExpiry env)
                                       (summaryPods env) (selects env)
                                 in (res, ApiGetDeployment # ApiUpdateDeployment current'
                                       # ApiWatchDeployments # t))))))"


section \<open>The HTTP probe\<close>

definition requestBackoffTimeout :: int where
  "requestBackoffTimeout = 3 * (60 * 1000000000)"

definition requestBackoffMaxRetries :: int where
  "requestBackoffMaxRetries = 10"

text \<open>
  One iteration of the probe's loop: whether \<open>ctx.Done()\<close> is ready, the time in
  nanoseconds that \<open>time.Now()\<close> reads since the deadline was computed, and the answer
  of \<open>http.Get\<close> (a transport error or the status code of the response).
\<close>

record probePoll =
  probeCtxDone :: bool
  elapsed :: int
  response :: "error + int"

fun requestLoop ::
  "checkRunner \<Rightarrow> cleanupEnv \<Rightarrow> string \<Rightarrow> int \<Rightarrow> probePoll list \<Rightarrow> error option run \<times> action list" where
  "requestLoop r cenv address attempt [] = (Pending, [])"
| "requestLoop r cenv address attempt (p # ps) =
     (if probeCtxDone p
      then (case cleanup r cenv of
              (Pending, t) \<Rightarrow> (Pending, t)
            | (Returned (Some cleanupErr), t) \<Rightarrow>
                (Returned (Some (''context expired while waiting for '' @ itoa 200 @ '' from ''
                   @ address @ '' and cleanup failed: '' @ cleanupErr)), t)
            | (Returned None, t) \<Rightarrow>
                (Returned (Some (''context expired while waiting for '' @ itoa 200 @ '' from ''
                   @ address)), t))
      else if elapsed p > requestBackoffTimeout
      then (case cleanup r cenv of
              (Pending, t) \<Rightarrow> (Pending, t)
            | (Returned (Some cleanupErr), t) \<Rightarrow>
                (Returned (Some (''backoff loop timed out and cleanup failed: '' @ cleanupErr)), t)
            | (Returned None, t) \<Rightarrow>
                (Returned (Some (''backoff loop for a '' @ itoa 200
                   @ '' response took too long and timed out'')), t))
      else if attempt > requestBackoffMaxRetries
      then (Returned (Some (''could not successfully make an HTTP request after ''
              @ itoa (attempt - 1) @ '' attempts'')), [])
      else
        (case response p of
           Inr statusCode \<Rightarrow>
             if statusCode = 200 then (Returned None, [HttpGet address])
             else (let (res, t) = requestLoop r cenv address (attempt + 1) ps
                   in (res, HttpGet address # Sleep (attempt * 5) # t))
         | Inl err \<Rightarrow>
             (let (res, t) = requestLoop r cenv address (attempt + 1) ps
              in (res, HttpGet address # Sleep (attempt * 5) # t))))"

record probeEnv =
  probePolls :: "probePoll list"
  probeCleanup :: cleanupEnv

definition requestServiceEndpoint ::
  "checkRunner \<Rightarrow> probeEnv \<Rightarrow> string \<Rightarrow> error option run \<times> action list" where
  "requestServiceEndpoint r env address =
     (if length address = 0
      then (Returned (Some ''given blank service address for HTTP call''), [])
      else
        (let address' = (if \<not> hasPrefix address ''http://'' then ''http://'' @ address else address)
         in requestLoop r (probeCleanup env) address' 1 (probePolls env)))"


section \<open>Example values\<close>

text \<open>
  The configuration \<open>parseConfig\<close> produces when no environment variable is set
  (the time limit is \<open>defaultCheckTimeLimit\<close>, 15 minutes), and the runner of the
  unit tests (\<open>buildTestRunner\<close>), whose image fields are left empty.
\<close>

definition defaultConfig :: checkConfig where
  "defaultConfig = \<lparr>CheckImageURL = ''nginxinc/nginx-unprivileged:1.17.8'',
     CheckImageURLRollTo = ''nginxinc/nginx-unprivileged:1.17.9'',
     CheckImagePullSecret = [], CheckDeploymentName = ''deployment-deployment'',
     CheckServiceName = ''deployment-svc'', CheckContainerPort = 8080,
     CheckLoadBalancerPort = 80, CheckNamespace = ''kuberhealthy'',
     CheckDeploymentReplicas = 2, CheckDeploymentTolerations = [],
     CheckDeploymentNodeSelectors = Map.empty, CheckServiceAccount = ''default'',
     MillicoreRequest = 15, MillicoreLimit = 75, MemoryRequest = 20 * 1024 * 1024,
     MemoryLimit = 75 * 1024 * 1024, CheckTimeLimit = 15 * (60 * 1000000000),
     RollingUpdate = False, AdditionalEnvVars = [],
     ShutdownGracePeriod = 30 * 1000000000\<rparr>"

definition defaultRunner :: checkRunner where
  "defaultRunner = \<lparr>cfg = defaultConfig, now = 1700000000\<rparr>"


text \<open>The rolling-update values a deployment descriptor carries, read as \<open>int32\<close>.\<close>

definition maxSurgeOf :: "deployment \<Rightarrow> int option" where
  "maxSurgeOf d =
     (case StrategyRollingUpdate (Strategy (Spec d)) of
        None \<Rightarrow> None
      | Some ru \<Rightarrow> (case MaxSurge ru of None \<Rightarrow> None | Some v \<Rightarrow> Some (sint (IntVal v))))"

definition maxUnavailableOf :: "deployment \<Rightarrow> int option" where
  "maxUnavailableOf d =
     (case StrategyRollingUpdate (Strategy (Spec d)) of
        None \<Rightarrow> None
      | Some ru \<Rightarrow> (case MaxUnavailable ru of None \<Rightarrow> None | Some v \<Rightarrow> Some (sint (IntVal v))))"

text \<open>A deployment as a watch event reports it, with the given status.\<close>

definition deploymentWithStatus :: "deploymentStatus \<Rightarrow> deployment" where
  "deploymentWithStatus st =
     (fst (createDeploymentConfig defaultRunner (CheckImageURL defaultConfig)))\<lparr>Status := st\<rparr>"

definition availableStatus :: deploymentStatus where
  "availableStatus = \<lparr>Conditions = [\<lparr>CondType = ''Progressing'', CondStatus = ''True''\<rparr>,
       \<lparr>CondType = ''Available'', CondStatus = ''True''\<rparr>],
     StatusReplicas = 2, UpdatedReplicas = 2, AvailableReplicas = 2, ReadyReplicas = 2,
     UnavailableReplicas = 0, ObservedGeneration = 1\<rparr>"

definition rolledStatus :: deploymentStatus where
  "rolledStatus = availableStatus\<lparr>ObservedGeneration := 2\<rparr>"


text \<open>
  Polls of a delete-and-wait loop: the resource is gone and the context is live; the
  context is done; the \<open>List\<close> call fails.  And environments of a whole delete and
  of a cleanup built from them.
\<close>

definition absentPoll :: deletePoll where
  "absentPoll = \<lparr>ctxDone = False, listResult = Inr [], redeleteResult = None\<rparr>"

definition expiredPoll :: deletePoll where
  "expiredPoll = \<lparr>ctxDone = True, listResult = Inr [], redeleteResult = None\<rparr>"

definition listErrorPoll :: deletePoll where
  "listErrorPoll = \<lparr>ctxDone = False, listResult = Inl ''connection refused'',
     redeleteResult = None\<rparr>"

definition absentEnv :: deleteEnv where
  "absentEnv = \<lparr>firstDelete = Some ''not found'', polls = [absentPoll]\<rparr>"

definition expiredEnv :: deleteEnv where
  "expiredEnv = \<lparr>firstDelete = Some ''context deadline exceeded'', polls = [expiredPoll]\<rparr>"

definition cleanEnv :: cleanupEnv where
  "cleanEnv = \<lparr>serviceDelete = absentEnv, deploymentDelete = absentEnv\<rparr>"

definition expiredCleanupEnv :: cleanupEnv where
  "expiredCleanupEnv = \<lparr>serviceDelete = expiredEnv, deploymentDelete = expiredEnv\<rparr>"


text \<open>
  The three ways the probe's loop gives up, and the ending an error message of the
  probe reports, read from the fixed beginning of the message.
\<close>

datatype probeEnding = ContextCancelled | WindowExhausted | AttemptsExhausted

definition probeErrorKind :: "error \<Rightarrow> probeEnding option" where
  "probeErrorKind e =
     (if hasPrefix e ''context expired while waiting for '' then Some ContextCancelled
      else if hasPrefix e ''backoff loop '' then Some WindowExhausted
      else if hasPrefix e ''could not successfully make an HTTP request after ''
      then Some AttemptsExhausted
      else None)"






text \<open>
  A wait for the created deployment that sees one event of a deployment not yet
  available and then the caller's context done; the cleanup that follows runs on the
  done context.
\<close>

definition expiredCreateEnv :: createEnv where
  "expiredCreateEnv = \<lparr>watchResult = None, monitorTicks = [],
     selects = [WatchEvent (Some (deploymentWithStatus zeroStatus)), CtxDone],
     cleanupOnExpiry = expiredCleanupEnv, summaryPods = Inr [],
     createResult = Inr (Some (deploymentWithStatus zeroStatus))\<rparr>"


text \<open>
  A pod whose only container waits on a failed image pull, what an inspection sees
  when that pod is the only one of the run, and what it sees when the run has no
  pods; then monitor polls with 14, 7 and 4 minutes left until the deadline.
\<close>

definition imagePullPod :: pod where
  "imagePullPod = \<lparr>PodName = ''deployment-deployment-7d4b9c-x2x9q'', NodeName = ''node-1'',
     Phase = ''Pending'', PodReason = [], PodMessage = [],
     ContainerStatuses = [\<lparr>StatusName = ''deployment-container'', Ready = False,
       Waiting = Some \<lparr>WaitingReason = ''ImagePullBackOff'',
         WaitingMessage = ''Back-off pulling image''\<rparr>,
       StateRunning = False, Terminated = None\<rparr>]\<rparr>"

definition brokenSnapshot :: podSnapshot where
  "brokenSnapshot = \<lparr>podList = Inr [imagePullPod], eventsOf = (\<lambda>name. EventList [])\<rparr>"


definition monitorTickAt :: "int \<Rightarrow> podSnapshot \<Rightarrow> monitorTick" where
  "monitorTickAt minutesLeft snap =
     \<lparr>tickCtxDone = False, untilDeadline = minutesLeft * (60 * 1000000000), snapshot = snap\<rparr>"



text \<open>
  \<open>time.Sleep\<close> pauses for at least its duration, and the probe compares readings
  of the monotonic clock.  A script of the probe agrees with that when each reading is
  at least the sum of the sleeps made before it: \<open>slept\<close> is that sum in
  nanoseconds, \<open>attempt\<close> the number of the attempt the next poll belongs to.
\<close>

fun clockHonoursSleeps :: "int \<Rightarrow> int \<Rightarrow> probePoll list \<Rightarrow> bool" where
  "clockHonoursSleeps slept attempt [] = True"
| "clockHonoursSleeps slept attempt (p # ps) =
     (slept \<le> elapsed p
      \<and> clockHonoursSleeps (slept + attempt * 5 * 1000000000) (attempt + 1) ps)"


section \<open>Properties\<close>

subsection \<open>Integers\<close>

lemma ceiling_half: "\<lceil>real_of_int n / real_of_int 2\<rceil> = (n + 1) div 2"
proof -
  have "real_of_int n / real_of_int 2 = real_of_int n / real_of_int (2::int)" by simp
  then have "\<lceil>real_of_int n / real_of_int 2\<rceil> = - ((- n) div 2)"
    by (simp only: ceiling_divide_eq_div)
  also have "\<dots> = (n + 1) div 2" by presburger
  finally show ?thesis .
qed

lemma int32_sint: "- 2147483648 \<le> x \<Longrightarrow> x \<le> 2147483647 \<Longrightarrow> sint (int32 x) = x"
  unfolding int32_def by (simp add: sint_sbintrunc' signed_take_bit_int_eq_self)

subsection \<open>Rolling-update values of the deployment descriptor\<close>

lemma maxSurge_ceiling: "1 \<le> n \<Longrightarrow> maxSurge n = (n + 1) div 2"
  unfolding maxSurge_def Let_def ceiling_half deploymentMaxSurgeDefault_def by auto

lemma maxUnavailable_ceiling: "1 \<le> n \<Longrightarrow> maxUnavailable n = (n + 1) div 2"
  unfolding maxUnavailable_def Let_def ceiling_half deploymentMaxUnavailableDefault_def by auto

lemma descriptor_maxSurgeOf:
  "checkImage \<noteq> [] \<Longrightarrow>
   maxSurgeOf (fst (createDeploymentConfig r checkImage)) =
     Some (sint (int32 (maxSurge (CheckDeploymentReplicas (cfg r)))))"
  by (simp add: createDeploymentConfig_def maxSurgeOf_def Let_def)

lemma descriptor_maxUnavailableOf:
  "checkImage \<noteq> [] \<Longrightarrow>
   maxUnavailableOf (fst (createDeploymentConfig r checkImage)) =
     Some (sint (int32 (maxUnavailable (CheckDeploymentReplicas (cfg r)))))"
  by (simp add: createDeploymentConfig_def maxUnavailableOf_def Let_def)

text \<open>
  Claim C4, as the code has it.  For a replica count \<open>N\<close> with \<open>1 \<le> N\<close> that fits
  the \<open>int32\<close> replica field, the max-surge and the max-unavailable value of the
  descriptor built for a non-empty image both equal \<open>ceil(N / 2)\<close>, and that value is
  at least 1.  The fallback constant 2 replaces the ceiling only when the ceiling is
  below 1, which no \<open>N \<ge> 1\<close> reaches; the values are not \<open>max(ceil(N / 2), 2)\<close>.
\<close>

theorem rolling_update_values:
  assumes "1 \<le> CheckDeploymentReplicas (cfg r)"
    and "CheckDeploymentReplicas (cfg r) \<le> 2147483647"
    and "checkImage \<noteq> []"
  shows "maxSurgeOf (fst (createDeploymentConfig r checkImage)) =
           Some \<lceil>real_of_int (CheckDeploymentReplicas (cfg r)) / 2\<rceil>
       \<and> maxUnavailableOf (fst (createDeploymentConfig r checkImage)) =
           Some \<lceil>real_of_int (CheckDeploymentReplicas (cfg r)) / 2\<rceil>
       \<and> 1 \<le> \<lceil>real_of_int (CheckDeploymentReplicas (cfg r)) / 2\<rceil>"
proof -
  let ?n = "CheckDeploymentReplicas (cfg r)"
  have c: "\<lceil>real_of_int ?n / 2\<rceil> = (?n + 1) div 2"
    using ceiling_half [of ?n] by simp
  have range: "- 2147483648 \<le> (?n + 1) div 2" "(?n + 1) div 2 \<le> 2147483647"
    using assms(1,2) by presburger+
  have s: "sint (int32 (maxSurge ?n)) = (?n + 1) div 2"
    using assms(1) range by (simp add: maxSurge_ceiling int32_sint)
  have u: "sint (int32 (maxUnavailable ?n)) = (?n + 1) div 2"
    using assms(1) range by (simp add: maxUnavailable_ceiling int32_sint)
  have one: "1 \<le> (?n + 1) div 2" using assms(1) by presburger
  show ?thesis
    using assms(3) s u one by (simp add: descriptor_maxSurgeOf descriptor_maxUnavailableOf c)
qed

text \<open>The theorem at the default configuration (two replicas): both values are 1.\<close>

theorem rolling_update_values_witness:
  "1 \<le> CheckDeploymentReplicas (cfg defaultRunner)
   \<and> CheckDeploymentReplicas (cfg defaultRunner) \<le> 2147483647
   \<and> maxSurgeOf (fst (createDeploymentConfig defaultRunner ''nginx:latest'')) = Some 1
   \<and> maxUnavailableOf (fst (createDeploymentConfig defaultRunner ''nginx:latest'')) = Some 1"
  using rolling_update_values [of defaultRunner "''nginx:latest''"]
  by (simp add: defaultRunner_def defaultConfig_def)

text \<open>
  Claim C4 as stated fails for one replica: the descriptor carries 1 for both values,
  where \<open>max(ceil(1 / 2), fallback)\<close> is 2.
\<close>

theorem rolling_update_values_counterexample:
  "maxSurgeOf (fst (createDeploymentConfig
       (defaultRunner\<lparr>cfg := defaultConfig\<lparr>CheckDeploymentReplicas := 1\<rparr>\<rparr>) ''nginx:latest'')) = Some 1
   \<and> maxUnavailableOf (fst (createDeploymentConfig
       (defaultRunner\<lparr>cfg := defaultConfig\<lparr>CheckDeploymentReplicas := 1\<rparr>\<rparr>) ''nginx:latest'')) = Some 1
   \<and> max \<lceil>real_of_int 1 / 2\<rceil> deploymentMaxSurgeDefault = 2
   \<and> max \<lceil>real_of_int 1 / 2\<rceil> deploymentMaxUnavailableDefault = 2"
  by (simp add: descriptor_maxSurgeOf descriptor_maxUnavailableOf maxSurge_ceiling
      maxUnavailable_ceiling int32_sint deploymentMaxSurgeDefault_def
      deploymentMaxUnavailableDefault_def)

subsection \<open>The availability predicate\<close>

lemma availableCondition_iff:
  "availableCondition st replicas conds \<longleftrightarrow>
     (\<exists>c \<in> set conds. CondType c = ''Available'' \<and> CondStatus c = ''True'')
     \<and> StatusReplicas st = int32 replicas \<and> AvailableReplicas st = int32 replicas
     \<and> ReadyReplicas st = int32 replicas \<and> ObservedGeneration st = 1"
  by (induction conds) auto

lemma Status_deploymentWithStatus: "Status (deploymentWithStatus st) = st"
  by (simp add: deploymentWithStatus_def)

text \<open>
  Claim C6.  \<open>deploymentAvailable\<close> holds exactly when the deployment is present, one
  of its conditions is \<open>Available\<close> with status \<open>True\<close>, the replica, available and
  ready counts of the status all equal the configured count (converted to \<open>int32\<close>,
  as the code compares them), and the observed generation is 1.  So it is false as
  soon as one of these fails, and true only when all of them hold.
\<close>

theorem deploymentAvailable_iff:
  "deploymentAvailable d replicas \<longleftrightarrow>
     (\<exists>dep. d = Some dep
        \<and> (\<exists>c \<in> set (Conditions (Status dep)). CondType c = ''Available'' \<and> CondStatus c = ''True'')
        \<and> StatusReplicas (Status dep) = int32 replicas
        \<and> AvailableReplicas (Status dep) = int32 replicas
        \<and> ReadyReplicas (Status dep) = int32 replicas
        \<and> ObservedGeneration (Status dep) = 1)"
  by (cases d) (simp_all add: deploymentAvailable_def availableCondition_iff)

text \<open>
  The predicate on four statuses: all conditions met; generation 2; a configured
  count the status does not match; no \<open>Available\<close> condition.
\<close>

theorem deploymentAvailable_witness:
  "deploymentAvailable (Some (deploymentWithStatus availableStatus)) 2
   \<and> \<not> deploymentAvailable (Some (deploymentWithStatus rolledStatus)) 2
   \<and> \<not> deploymentAvailable (Some (deploymentWithStatus availableStatus)) 3
   \<and> \<not> deploymentAvailable (Some (deploymentWithStatus (availableStatus\<lparr>Conditions := []\<rparr>))) 2"
  using deploymentAvailable_iff [of "Some (deploymentWithStatus availableStatus)" 2]
    deploymentAvailable_iff [of "Some (deploymentWithStatus rolledStatus)" 2]
    deploymentAvailable_iff [of "Some (deploymentWithStatus availableStatus)" 3]
    deploymentAvailable_iff [of "Some (deploymentWithStatus (availableStatus\<lparr>Conditions := []\<rparr>))" 2]
  by (simp add: Status_deploymentWithStatus availableStatus_def rolledStatus_def int32_def)

subsection \<open>The rollout-complete predicate\<close>

text \<open>
  Claim C7.  \<open>rolledPodsAreReady\<close> holds exactly when the deployment is present, the
  replica, updated, available and ready counts all equal the configured count
  (converted to \<open>int32\<close>), the unavailable count is below 1 and the observed
  generation is above 1.  So it is false whenever the unavailable count is at least 1
  or the observed generation is at most 1.
\<close>

theorem rolledPodsAreReady_iff:
  "rolledPodsAreReady d replicas \<longleftrightarrow>
     (\<exists>dep. d = Some dep
        \<and> StatusReplicas (Status dep) = int32 replicas
        \<and> UpdatedReplicas (Status dep) = int32 replicas
        \<and> AvailableReplicas (Status dep) = int32 replicas
        \<and> ReadyReplicas (Status dep) = int32 replicas
        \<and> sint (UnavailableReplicas (Status dep)) < 1
        \<and> 1 < sint (ObservedGeneration (Status dep)))"
  by (cases d) (auto simp add: rolledPodsAreReady_def)

text \<open>
  The predicate on four statuses: rolled out; still at generation 1; one replica
  unavailable; one replica not updated.
\<close>

theorem rolledPodsAreReady_witness:
  "rolledPodsAreReady (Some (deploymentWithStatus rolledStatus)) 2
   \<and> \<not> rolledPodsAreReady (Some (deploymentWithStatus availableStatus)) 2
   \<and> \<not> rolledPodsAreReady (Some (deploymentWithStatus (rolledStatus\<lparr>UnavailableReplicas := 1\<rparr>))) 2
   \<and> \<not> rolledPodsAreReady (Some (deploymentWithStatus (rolledStatus\<lparr>UpdatedReplicas := 1\<rparr>))) 2"
  using rolledPodsAreReady_iff [of "Some (deploymentWithStatus rolledStatus)" 2]
    rolledPodsAreReady_iff [of "Some (deploymentWithStatus availableStatus)" 2]
    rolledPodsAreReady_iff [of "Some (deploymentWithStatus (rolledStatus\<lparr>UnavailableReplicas := 1\<rparr>))" 2]
    rolledPodsAreReady_iff [of "Some (deploymentWithStatus (rolledStatus\<lparr>UpdatedReplicas := 1\<rparr>))" 2]
  by (simp add: Status_deploymentWithStatus availableStatus_def rolledStatus_def int32_def)

subsection \<open>The HTTP probe on a blank address\<close>

text \<open>
  Claim C10.  For the empty address, \<open>requestServiceEndpoint\<close> returns its error at
  once, whatever the environment: the list of calls is empty, so the loop is not
  entered, no HTTP request is made and cleanup is not invoked.
\<close>

theorem blank_address_returns_immediately:
  "requestServiceEndpoint r env [] =
     (Returned (Some ''given blank service address for HTTP call''), [])"
  by (simp add: requestServiceEndpoint_def)

subsection \<open>Delete-and-wait on an absent resource\<close>

lemma deploymentDeleteLoop_retries:
  assumes "\<forall>p \<in> set retries. \<not> ctxDone p \<and> isl (listResult p)"
  shows "deploymentDeleteLoop name (retries @ rest) =
           (fst (deploymentDeleteLoop name rest),
            concat (map (\<lambda>p. [Sleep 5, ApiListDeployments]) retries)
              @ snd (deploymentDeleteLoop name rest))"
  using assms
proof (induction retries)
  case Nil
  then show ?case by simp
next
  case (Cons p ps)
  then obtain e where "listResult p = Inl e" "\<not> ctxDone p"
    by (cases "listResult p") auto
  with Cons show ?case by (simp add: case_prod_unfold)
qed

lemma serviceDeleteLoop_retries:
  assumes "\<forall>p \<in> set retries. \<not> ctxDone p \<and> isl (listResult p)"
  shows "serviceDeleteLoop name (retries @ rest) =
           (fst (serviceDeleteLoop name rest),
            concat (map (\<lambda>p. [Sleep 5, ApiListServices]) retries)
              @ snd (serviceDeleteLoop name rest))"
  using assms
proof (induction retries)
  case Nil
  then show ?case by simp
next
  case (Cons p ps)
  then obtain e where "listResult p = Inl e" "\<not> ctxDone p"
    by (cases "listResult p") auto
  with Cons show ?case by (simp add: case_prod_unfold)
qed

text \<open>
  Claim C9, as the code has it.  Let the resource be absent: the first \<open>List\<close> call
  that succeeds (at poll \<open>p\<close>, after any number of polls whose \<open>List\<close> call failed)
  lists no item of the configured name.  If the caller's context is not done at these
  polls, then \<open>deleteDeploymentAndWait\<close> and \<open>deleteServiceAndWait\<close> return nil, and
  their calls are the one initial delete followed by one sleep and one \<open>List\<close> call
  per poll: no delete is re-issued.
\<close>

theorem delete_absent_resource:
  assumes "\<forall>q \<in> set retries. \<not> ctxDone q \<and> isl (listResult q)"
    and "\<not> ctxDone p" and "listResult p = Inr items"
    and "CheckDeploymentName (cfg r) \<notin> set items"
    and "CheckServiceName (cfg r) \<notin> set items"
  shows "deleteDeploymentAndWait r \<lparr>firstDelete = fd, polls = retries @ p # rest\<rparr> =
           (Returned None,
            ApiDeleteDeployment # concat (map (\<lambda>q. [Sleep 5, ApiListDeployments]) retries)
              @ [Sleep 5, ApiListDeployments])
       \<and> deleteServiceAndWait r \<lparr>firstDelete = fd, polls = retries @ p # rest\<rparr> =
           (Returned None,
            ApiDeleteService # concat (map (\<lambda>q. [Sleep 5, ApiListServices]) retries)
              @ [Sleep 5, ApiListServices])"
  using assms
  by (simp add: deleteDeploymentAndWait_def deleteServiceAndWait_def
      deploymentDeleteLoop_retries serviceDeleteLoop_retries)

text \<open>The theorem on a run whose first \<open>List\<close> call fails and whose second one succeeds.\<close>

theorem delete_absent_resource_witness:
  "deleteDeploymentAndWait defaultRunner
       \<lparr>firstDelete = Some ''not found'', polls = [listErrorPoll, absentPoll]\<rparr> =
     (Returned None,
      [ApiDeleteDeployment, Sleep 5, ApiListDeployments, Sleep 5, ApiListDeployments])
   \<and> deleteServiceAndWait defaultRunner
       \<lparr>firstDelete = Some ''not found'', polls = [listErrorPoll, absentPoll]\<rparr> =
     (Returned None, [ApiDeleteService, Sleep 5, ApiListServices, Sleep 5, ApiListServices])"
  using delete_absent_resource [of "[listErrorPoll]" absentPoll "[]" defaultRunner
      "Some ''not found''" "[]"]
  by (simp add: listErrorPoll_def absentPoll_def)

text \<open>
  Claim C9 as stated fails when the caller's context is already done: both functions
  then return a timed-out error right after the initial delete, although the resource
  is absent.  (This is the situation of every cleanup run after the context expired.)
\<close>

theorem delete_absent_resource_counterexample:
  "deleteDeploymentAndWait defaultRunner expiredEnv =
     (Returned (Some ''timed out while waiting for deployment to delete''), [ApiDeleteDeployment])
   \<and> deleteServiceAndWait defaultRunner expiredEnv =
     (Returned (Some ''timed out while waiting for service to delete''), [ApiDeleteService])
   \<and> listResult expiredPoll = Inr []"
  by (simp add: deleteDeploymentAndWait_def deleteServiceAndWait_def expiredEnv_def
      expiredPoll_def)

subsection \<open>Cleanup\<close>

lemma serviceDeleteLoop_no_deployment_delete:
  "ApiDeleteDeployment \<notin> set (snd (serviceDeleteLoop name ps))"
  by (induction ps) (auto simp: case_prod_unfold Let_def split: sum.splits)

lemma cleanup_cleanEnv:
  "cleanup defaultRunner cleanEnv =
     (Returned None, [ApiDeleteService, Sleep 5, ApiListServices,
        ApiDeleteDeployment, Sleep 5, ApiListDeployments])"
  by (simp add: cleanup_def cleanEnv_def absentEnv_def absentPoll_def
      deleteServiceAndWait_def deleteDeploymentAndWait_def)

lemma cleanup_expiredCleanupEnv:
  "cleanup r expiredCleanupEnv =
     (Returned (Some (''error cleaning up service: timed out while waiting for service to delete''
        @ '' | error cleaning up deployment: timed out while waiting for deployment to delete'')),
      [ApiDeleteService, ApiDeleteDeployment])"
  by (simp add: cleanup_def expiredCleanupEnv_def expiredEnv_def expiredPoll_def
      deleteServiceAndWait_def deleteDeploymentAndWait_def)

text \<open>
  Claim C8.  Whenever the service deletion returns, with an error or without one:
  the calls of cleanup are the calls of the service deletion (which start with the
  service delete and contain no deployment delete) followed by the calls of the
  deployment deletion (which start with the deployment delete); and once the
  deployment deletion returns, cleanup returns nil if both returned nil, and otherwise
  one error whose message joins the messages of the deletions that failed.
\<close>

theorem cleanup_order_and_aggregation:
  assumes "deleteServiceAndWait r (serviceDelete env) = (Returned serviceErr, ts)"
  shows "(\<exists>ts'. ts = ApiDeleteService # ts' \<and> ApiDeleteDeployment \<notin> set ts')
       \<and> (\<exists>td'. snd (deleteDeploymentAndWait r (deploymentDelete env)) = ApiDeleteDeployment # td')
       \<and> snd (cleanup r env) = ts @ snd (deleteDeploymentAndWait r (deploymentDelete env))
       \<and> fst (cleanup r env) =
           (case fst (deleteDeploymentAndWait r (deploymentDelete env)) of
              Pending \<Rightarrow> Pending
            | Returned deploymentErr \<Rightarrow>
                Returned
                  (case serviceErr of
                     None \<Rightarrow>
                       (case deploymentErr of
                          None \<Rightarrow> None
                        | Some d \<Rightarrow> Some (''error cleaning up deployment: '' @ d))
                   | Some s \<Rightarrow>
                       (case deploymentErr of
                          None \<Rightarrow> Some (''error cleaning up service: '' @ s)
                        | Some d \<Rightarrow>
                            Some (''error cleaning up service: '' @ s
                              @ '' | error cleaning up deployment: '' @ d))))"
proof -
  obtain resd td0 where d: "deploymentDeleteLoop (CheckDeploymentName (cfg r))
      (polls (deploymentDelete env)) = (resd, td0)"
    by (cases "deploymentDeleteLoop (CheckDeploymentName (cfg r)) (polls (deploymentDelete env))")
  have dep: "deleteDeploymentAndWait r (deploymentDelete env) = (resd, ApiDeleteDeployment # td0)"
    by (simp add: deleteDeploymentAndWait_def d)
  obtain ress ts0 where s: "serviceDeleteLoop (CheckServiceName (cfg r))
      (polls (serviceDelete env)) = (ress, ts0)"
    by (cases "serviceDeleteLoop (CheckServiceName (cfg r)) (polls (serviceDelete env))")
  have ts: "ts = ApiDeleteService # ts0" and ress: "ress = Returned serviceErr"
    using assms by (simp_all add: deleteServiceAndWait_def s)
  have no: "ApiDeleteDeployment \<notin> set ts0"
    using serviceDeleteLoop_no_deployment_delete
      [of "CheckServiceName (cfg r)" "polls (serviceDelete env)"] s by simp
  have tr: "snd (cleanup r env) = ApiDeleteService # ts0 @ ApiDeleteDeployment # td0"
    using assms dep ts by (cases resd) (simp_all add: cleanup_def Let_def)
  have res: "fst (cleanup r env) =
           (case resd of
              Pending \<Rightarrow> Pending
            | Returned deploymentErr \<Rightarrow>
                Returned
                  (case serviceErr of
                     None \<Rightarrow>
                       (case deploymentErr of
                          None \<Rightarrow> None
                        | Some d \<Rightarrow> Some (''error cleaning up deployment: '' @ d))
                   | Some s \<Rightarrow>
                       (case deploymentErr of
                          None \<Rightarrow> Some (''error cleaning up service: '' @ s)
                        | Some d \<Rightarrow>
                            Some (''error cleaning up service: '' @ s
                              @ '' | error cleaning up deployment: '' @ d))))"
    using assms dep
    by (cases resd) (simp_all add: cleanup_def Let_def split: option.splits)
  show ?thesis using ts no tr res dep by simp
qed

text \<open>
  The theorem on a cleanup whose service deletion times out and whose deployment
  deletion succeeds: the deployment is deleted all the same, and the error reports
  the service.
\<close>

theorem cleanup_order_and_aggregation_witness:
  "deleteServiceAndWait defaultRunner (serviceDelete \<lparr>serviceDelete = expiredEnv, deploymentDelete = absentEnv\<rparr>) =
      (Returned (Some ''timed out while waiting for service to delete''), [ApiDeleteService])
   \<and> snd (cleanup defaultRunner \<lparr>serviceDelete = expiredEnv, deploymentDelete = absentEnv\<rparr>) =
      [ApiDeleteService, ApiDeleteDeployment, Sleep 5, ApiListDeployments]
   \<and> fst (cleanup defaultRunner \<lparr>serviceDelete = expiredEnv, deploymentDelete = absentEnv\<rparr>) =
      Returned (Some ''error cleaning up service: timed out while waiting for service to delete'')"
proof -
  have h: "deleteServiceAndWait defaultRunner
      (serviceDelete \<lparr>serviceDelete = expiredEnv, deploymentDelete = absentEnv\<rparr>) =
      (Returned (Some ''timed out while waiting for service to delete''), [ApiDeleteService])"
    by (simp add: deleteServiceAndWait_def expiredEnv_def expiredPoll_def)
  have d: "deleteDeploymentAndWait defaultRunner absentEnv =
      (Returned None, [ApiDeleteDeployment, Sleep 5, ApiListDeployments])"
    by (simp add: deleteDeploymentAndWait_def absentEnv_def absentPoll_def)
  show ?thesis
    using h d cleanup_order_and_aggregation [OF h] by auto
qed

subsection \<open>The endings of the HTTP probe\<close>

lemma cleanup_trace_starts:
  "\<exists>t. snd (cleanup r cenv) = ApiDeleteService # t"
  by (auto simp: cleanup_def deleteServiceAndWait_def deleteDeploymentAndWait_def
      case_prod_unfold Let_def split: run.splits)



lemma digitChar_values:
  "map digitChar [0, 1, 2, 3, 4, 5, 6, 7, 8, 9] = ''0123456789''"
  by (simp add: digitChar_def char_of_def bit_Suc_0_iff)

lemma itoa_200: "itoa 200 = ''200''"
  using digitChar_values by (simp add: itoa_def)


lemma kind_cancelled:
  "probeErrorKind (''context expired while waiting for '' @ rest) = Some ContextCancelled"
  by (simp add: probeErrorKind_def)

lemma kind_late:
  "probeErrorKind (''backoff loop '' @ rest) = Some WindowExhausted"
  by (simp add: probeErrorKind_def)


lemma requestLoop_cancelled:
  assumes "probeCtxDone p"
  shows "snd (requestLoop r cenv address attempt (p # rest)) = snd (cleanup r cenv)"
    and "cleanup r cenv = (Returned cleanupErr, t) \<Longrightarrow>
         \<exists>e. fst (requestLoop r cenv address attempt (p # rest)) = Returned (Some e)
            \<and> probeErrorKind e = Some ContextCancelled"
proof -
  show "snd (requestLoop r cenv address attempt (p # rest)) = snd (cleanup r cenv)"
    using assms by (simp split: prod.splits run.splits option.splits)
next
  assume c: "cleanup r cenv = (Returned cleanupErr, t)"
  show "\<exists>e. fst (requestLoop r cenv address attempt (p # rest)) = Returned (Some e)
            \<and> probeErrorKind e = Some ContextCancelled"
  proof (cases cleanupErr)
    case None
    have "fst (requestLoop r cenv address attempt (p # rest)) =
        Returned (Some (''context expired while waiting for '' @ (itoa 200 @ '' from '' @ address)))"
      using assms c None by simp
    then show ?thesis using kind_cancelled by blast
  next
    case (Some ce)
    have "fst (requestLoop r cenv address attempt (p # rest)) =
        Returned (Some (''context expired while waiting for ''
          @ (itoa 200 @ '' from '' @ address @ '' and cleanup failed: '' @ ce)))"
      using assms c Some by simp
    then show ?thesis using kind_cancelled by blast
  qed
qed

lemma requestLoop_late:
  assumes "\<not> probeCtxDone p" "requestBackoffTimeout < elapsed p"
  shows "snd (requestLoop r cenv address attempt (p # rest)) = snd (cleanup r cenv)"
    and "cleanup r cenv = (Returned cleanupErr, t) \<Longrightarrow>
         \<exists>e. fst (requestLoop r cenv address attempt (p # rest)) = Returned (Some e)
            \<and> probeErrorKind e = Some WindowExhausted"
proof -
  show "snd (requestLoop r cenv address attempt (p # rest)) = snd (cleanup r cenv)"
    using assms by (simp split: prod.splits run.splits option.splits)
next
  assume c: "cleanup r cenv = (Returned cleanupErr, t)"
  show "\<exists>e. fst (requestLoop r cenv address attempt (p # rest)) = Returned (Some e)
            \<and> probeErrorKind e = Some WindowExhausted"
  proof (cases cleanupErr)
    case None
    have "fst (requestLoop r cenv address attempt (p # rest)) =
        Returned (Some (''backoff loop '' @ (''for a '' @ itoa 200
          @ '' response took too long and timed out'')))"
      using assms c None by simp
    then show ?thesis using kind_late by blast
  next
    case (Some ce)
    have "fst (requestLoop r cenv address attempt (p # rest)) =
        Returned (Some (''backoff loop '' @ (''timed out and cleanup failed: '' @ ce)))"
      using assms c Some by simp
    then show ?thesis using kind_late by blast
  qed
qed






text \<open>
  The ending on the attempt count needs a clock that lags behind the sleeps.  Ten
  failed attempts sleep 5 + 10 + ... + 50 = 275 seconds, more than the three minutes
  of \<open>requestBackoffTimeout\<close>, so when every clock reading is at least the
  time slept before it, the elapsed-time check ends the probe before the attempt
  check can.
\<close>

lemma requestLoop_attempts_need_lagging_clock:
  assumes "clockHonoursSleeps slept attempt script"
    and "1 \<le> attempt" and "attempt \<le> 11"
    and "2500000000 * (attempt * (attempt - 1)) \<le> slept"
    and "requestLoop r cenv address attempt script = (Returned (Some e), t)"
  shows "probeErrorKind e \<noteq> Some AttemptsExhausted"
  using assms
proof (induction script arbitrary: slept attempt t)
  case Nil
  then show ?case by simp
next
  case (Cons p ps)
  show ?case
  proof (cases "probeCtxDone p")
    case True
    obtain cres ct where c: "cleanup r cenv = (cres, ct)" by (cases "cleanup r cenv")
    from Cons.prems(5) True c obtain ce where "cres = Returned ce"
      by (cases cres) auto
    from requestLoop_cancelled(2) [OF True, of r cenv ce ct address attempt ps] c this
      Cons.prems(5)
    show ?thesis by auto
  next
    case False
    show ?thesis
    proof (cases "requestBackoffTimeout < elapsed p")
      case True
      obtain cres ct where c: "cleanup r cenv = (cres, ct)" by (cases "cleanup r cenv")
      from Cons.prems(5) False True c obtain ce where "cres = Returned ce"
        by (cases cres) auto
      from requestLoop_late(2) [OF False True, of r cenv ce ct address attempt ps] c this
        Cons.prems(5)
      show ?thesis by auto
    next
      case window: False
      have el: "slept \<le> elapsed p" using Cons.prems(1) by simp
      have small: "attempt \<le> 10"
      proof (rule ccontr)
        assume "\<not> attempt \<le> 10"
        with Cons.prems(3) have "attempt = 11" by simp
        with Cons.prems(4) have "275000000000 \<le> slept" by simp
        with el window show False by (simp add: requestBackoffTimeout_def)
      qed
      obtain res' t' where rec: "requestLoop r cenv address (attempt + 1) ps = (res', t')"
        by (cases "requestLoop r cenv address (attempt + 1) ps")
      have res: "res' = Returned (Some e)"
        using Cons.prems(5) False window small rec
        by (cases "response p")
          (auto simp: requestBackoffMaxRetries_def Let_def split: if_splits)
      have inv: "2500000000 * ((attempt + 1) * (attempt + 1 - 1))
          \<le> slept + attempt * 5 * 1000000000"
        using Cons.prems(4) by (simp add: algebra_simps)
      have clock: "clockHonoursSleeps (slept + attempt * 5 * 1000000000) (attempt + 1) ps"
        using Cons.prems(1) by simp
      show ?thesis
        using Cons.IH [OF clock _ _ inv] rec res Cons.prems(2) small by simp
    qed
  qed
qed

lemma attempts_ending_needs_lagging_clock:
  assumes "clockHonoursSleeps 0 1 (probePolls env)"
    and "fst (requestServiceEndpoint r env address) = Returned (Some e)"
  shows "probeErrorKind e \<noteq> Some AttemptsExhausted"
proof (cases "address = []")
  case True
  with assms(2) have "e = ''given blank service address for HTTP call''"
    by (simp add: requestServiceEndpoint_def)
  then show ?thesis by (simp add: probeErrorKind_def)
next
  case False
  define address' where
    "address' = (if \<not> hasPrefix address ''http://'' then ''http://'' @ address else address)"
  obtain t where "requestLoop r (probeCleanup env) address' 1 (probePolls env) =
      (Returned (Some e), t)"
    using assms(2) False
    by (cases "requestLoop r (probeCleanup env) address' 1 (probePolls env)")
      (simp add: requestServiceEndpoint_def address'_def Let_def)
  from requestLoop_attempts_need_lagging_clock [OF assms(1) _ _ _ this]
  show ?thesis by simp
qed


subsection \<open>Context expiry while waiting for the created deployment\<close>

text \<open>
  A cleanup whose deletions both find the context done fails with both timed-out
  messages: this is the cleanup of any caller whose own context has expired.
\<close>

lemma cleanup_after_expiry:
  assumes "polls (serviceDelete env) = p # ps" "ctxDone p"
    and "polls (deploymentDelete env) = q # qs" "ctxDone q"
  shows "cleanup r env =
     (Returned (Some (''error cleaning up service: timed out while waiting for service to delete''
        @ '' | error cleaning up deployment: timed out while waiting for deployment to delete'')),
      [ApiDeleteService, ApiDeleteDeployment])"
  using assms
  by (simp add: cleanup_def deleteServiceAndWait_def deleteDeploymentAndWait_def)

lemma createWaitLoop_waiting:
  assumes "\<forall>ev \<in> set waiting. \<exists>obj. ev = WatchEvent obj
             \<and> \<not> deploymentAvailable obj (CheckDeploymentReplicas (cfg r))"
  shows "createWaitLoop r sent cenv pods (waiting @ rest) = createWaitLoop r sent cenv pods rest"
  using assms
proof (induction waiting)
  case Nil
  then show ?case by simp
next
  case (Cons ev evs)
  then obtain obj where ev: "ev = WatchEvent obj"
    and na: "\<not> deploymentAvailable obj (CheckDeploymentReplicas (cfg r))"
    by auto
  have "createWaitLoop r sent cenv pods (ev # (evs @ rest)) =
      createWaitLoop r sent cenv pods (evs @ rest)"
    using ev na by (cases obj) simp_all
  with Cons show ?case by simp
qed

text \<open>
  Claim C3, as the code has it.  Let \<open>createDeploymentAndWait\<close> have created the
  deployment and opened its watch, and let the \<open>select\<close> pick the done context after
  any number of watch events that do not show the deployment available.  Then the
  calls of cleanup follow the create and the watch call, before the function returns.
  If cleanup succeeds, the error returned is the decorated
  \<open>context expired while waiting for deployment to create\<close>; if cleanup fails, the
  error returned is \<open>failed to clean up after deployment create: \<close> followed by the
  cleanup error, and nothing else.
\<close>

theorem create_context_expiry:
  assumes "createResult env = Inr (Some created)"
    and "watchResult env = None"
    and "selects env = waiting @ CtxDone # rest"
    and "\<forall>ev \<in> set waiting. \<exists>obj. ev = WatchEvent obj
           \<and> \<not> deploymentAvailable obj (CheckDeploymentReplicas (cfg r))"
  shows "(\<exists>post. snd (createDeploymentAndWait r env) =
            ApiCreateDeployment (fst (createDeploymentConfig r (CheckImageURL (cfg r))))
              # ApiWatchDeployments # snd (cleanup r (cleanupOnExpiry env)) @ post)
       \<and> fst (createDeploymentAndWait r env) =
           (case fst (cleanup r (cleanupOnExpiry env)) of
              Pending \<Rightarrow> Pending
            | Returned None \<Rightarrow>
                Returned (None, Some (''deployment create failed: ''
                  @ ''context expired while waiting for deployment to create''
                  @ ''; pod status: '' @ deploymentPodSummary (summaryPods env)))
            | Returned (Some cleanupErr) \<Rightarrow>
                Returned (None, Some (''failed to clean up after deployment create: ''
                  @ cleanupErr)))"
proof -
  define sent where "sent = podErrorChan
      (monitorDeploymentPodErrors r 2 errDeploymentCreatePod (monitorTicks env))"
  obtain cres ct where c: "cleanup r (cleanupOnExpiry env) = (cres, ct)"
    by (cases "cleanup r (cleanupOnExpiry env)")
  have loop: "createWaitLoop r sent (cleanupOnExpiry env) (summaryPods env) (selects env) =
      createWaitLoop r sent (cleanupOnExpiry env) (summaryPods env) (CtxDone # rest)"
    using assms(3) createWaitLoop_waiting [OF assms(4)] by simp
  have head: "createWaitLoop r sent (cleanupOnExpiry env) (summaryPods env) (CtxDone # rest) =
      (case cres of
         Pending \<Rightarrow> (Pending, ct)
       | Returned None \<Rightarrow>
           (Returned (None, Some (''deployment create failed: ''
              @ ''context expired while waiting for deployment to create''
              @ ''; pod status: '' @ deploymentPodSummary (summaryPods env))), ct @ [ApiListPods])
       | Returned (Some cleanupErr) \<Rightarrow>
           (Returned (None, Some (''failed to clean up after deployment create: ''
              @ cleanupErr)), ct))"
    using c by (simp add: decorateDeploymentError_def split: run.splits option.splits)
  have whole: "createDeploymentAndWait r env =
      (fst (createWaitLoop r sent (cleanupOnExpiry env) (summaryPods env) (CtxDone # rest)),
       ApiCreateDeployment (fst (createDeploymentConfig r (CheckImageURL (cfg r))))
         # ApiWatchDeployments
         # snd (createWaitLoop r sent (cleanupOnExpiry env) (summaryPods env) (CtxDone # rest)))"
    using assms(1,2) loop
    by (simp add: createDeploymentAndWait_def Let_def sent_def case_prod_unfold)
  show ?thesis
    unfolding whole head c
    by (cases cres) (auto split: option.splits)
qed

lemma zero_not_available: "\<not> deploymentAvailable (Some (deploymentWithStatus zeroStatus)) n"
  by (simp add: deploymentAvailable_def Status_deploymentWithStatus zeroStatus_def)

text \<open>The theorem on a wait whose cleanup runs on the done context.\<close>

theorem create_context_expiry_witness:
  "fst (createDeploymentAndWait defaultRunner expiredCreateEnv) =
      Returned (None, Some (''failed to clean up after deployment create: ''
         @ ''error cleaning up service: timed out while waiting for service to delete''
         @ '' | error cleaning up deployment: timed out while waiting for deployment to delete''))
   \<and> (\<exists>post. snd (createDeploymentAndWait defaultRunner expiredCreateEnv) =
          ApiCreateDeployment (fst (createDeploymentConfig defaultRunner
              (CheckImageURL (cfg defaultRunner))))
            # ApiWatchDeployments # [ApiDeleteService, ApiDeleteDeployment] @ post)"
  using create_context_expiry [where r = defaultRunner and env = expiredCreateEnv
      and created = "deploymentWithStatus zeroStatus"
      and waiting = "[WatchEvent (Some (deploymentWithStatus zeroStatus))]" and rest = "[]"]
    cleanup_expiredCleanupEnv [of defaultRunner] zero_not_available
  by (simp add: expiredCreateEnv_def)

text \<open>
  Claim C3 as stated fails on that wait: the error returned reports the cleanup
  failure only; it mentions neither the expired context nor a deadline.
\<close>

theorem create_context_expiry_counterexample:
  "fst (createDeploymentAndWait defaultRunner expiredCreateEnv) =
      Returned (None, Some ''failed to clean up after deployment create: error cleaning up service: timed out while waiting for service to delete | error cleaning up deployment: timed out while waiting for deployment to delete'')
   \<and> \<not> contains ''failed to clean up after deployment create: error cleaning up service: timed out while waiting for service to delete | error cleaning up deployment: timed out while waiting for deployment to delete'' ''context expired''
   \<and> \<not> contains ''failed to clean up after deployment create: error cleaning up service: timed out while waiting for service to delete | error cleaning up deployment: timed out while waiting for deployment to delete'' ''deadline''"
proof -
  have run: "fst (createDeploymentAndWait defaultRunner expiredCreateEnv) =
      Returned (None, Some ''failed to clean up after deployment create: error cleaning up service: timed out while waiting for service to delete | error cleaning up deployment: timed out while waiting for deployment to delete'')"
    using cleanup_expiredCleanupEnv [of defaultRunner] zero_not_available
    by (simp add: createDeploymentAndWait_def expiredCreateEnv_def Let_def case_prod_unfold)
  have c1: "\<not> contains ''failed to clean up after deployment create: error cleaning up service: timed out while waiting for service to delete | error cleaning up deployment: timed out while waiting for deployment to delete'' ''context expired''"
    by simp
  have c2: "\<not> contains ''failed to clean up after deployment create: error cleaning up service: timed out while waiting for service to delete | error cleaning up deployment: timed out while waiting for deployment to delete'' ''deadline''"
    by simp
  show ?thesis using run c1 c2 by blast
qed

subsection \<open>The pod-error monitor\<close>







lemma default_limits:
  "goDiv (CheckTimeLimit (cfg defaultRunner)) 2 = 450000000000"
  "goDiv (CheckTimeLimit (cfg defaultRunner)) 3 = 300000000000"
  by (simp_all add: goDiv_def defaultRunner_def defaultConfig_def)



text \<open>With 7 of 15 minutes left the update-stage monitor does not inspect yet.\<close>

lemma update_monitor_waits:
  "monitorDeploymentPodErrors defaultRunner 3 errDeploymentUpdatePod
       [monitorTickAt 7 brokenSnapshot] = (Pending, [])"
  by (simp add: monitorTickAt_def default_limits)

subsection \<open>The descriptor of an empty image\<close>

lemma descriptor_empty_image:
  "createDeploymentConfig r [] =
     (zeroDeployment, [''check image url for container is empty: ''])"
  by (simp add: createDeploymentConfig_def)




text \<open>
  The update step does check: with an empty roll-to image it returns before the
  \<open>Update\<close> call.
\<close>

lemma update_guards_empty_image:
  assumes "getResult env = Inr (Some current)" "CheckImageURLRollTo (cfg r) = []"
  shows "updateDeploymentAndWait r env =
     (Returned (None, Some ''updated deployment config did not include containers''),
      [ApiGetDeployment])"
  using assms
  by (simp add: updateDeploymentAndWait_def descriptor_empty_image zeroDeployment_def
      zeroPodSpec_def)

end
